theory Spec2Isabelle
  imports Main "HOL-Library.Word"
begin

section \<open>JavaScript values used by the server (index.js)\<close>

text \<open>
  A JavaScript string is a sequence of UTF-16 code units. The server builds strings with
  \<^verbatim>\<open>String.fromCharCode\<close>, whose result can be any code unit, and its texts hold
  characters beyond ASCII (the typographic apostrophe, the chess glyphs), so a string is
  modelled as the list of its code units. \<open>ascii\<close> reads an ASCII literal.
\<close>

type_synonym jsstring = "nat list"

definition ascii :: "string \<Rightarrow> jsstring" where
  "ascii s = map of_char s"

text \<open>
  Numbers are doubles. The model computes with \<^verbatim>\<open>NaN\<close> and with integers that a double
  holds exactly; \<open>Fin n\<close> is the number \<open>n\<close>. It forms \<open>Fin n\<close> only from a 32-bit
  integer plus or minus a small constant, and from the length of an array, so that
  \<open>n\<close> stays far below \<open>2^53\<close> in magnitude: no sum is rounded, and the number prints in
  decimal digits.
\<close>

datatype number = NaN | Fin int

text \<open>
  What a field of a JSON request body can hold: nothing (the property reads as
  \<^verbatim>\<open>undefined\<close>), \<^verbatim>\<open>null\<close>, a boolean, an integer in the 32-bit signed range
  (\<open>JNum w\<close> is the number \<open>sint w\<close>), or any other value, which is a string, an
  array, an object, a fraction or a number beyond that range. The server reads such a
  field \<open>v\<close> in two expressions only, \<^verbatim>\<open>String.fromCharCode('a'.charCodeAt(0) + v)\<close>,
  which is one code unit whatever \<open>v\<close> is, and \<^verbatim>\<open>8 - v\<close>, a number that is then
  printed. \<open>JOther u t\<close> is a value for which that code unit is \<open>u\<close> and that printed
  number is \<open>t\<close>; how the language computes the two from \<open>v\<close> is not modelled.
\<close>

type_synonym int32 = "32 word"

datatype jsval = JUndefined | JNull | JBool bool | JNum int32 | JOther nat jsstring

text \<open>\<^verbatim>\<open>String.fromCharCode(x)\<close>: one code unit, \<open>ToUint16 x\<close> (zero for \<^verbatim>\<open>NaN\<close>).\<close>

fun ToUint16 :: "number \<Rightarrow> nat" where
  "ToUint16 NaN = 0"
| "ToUint16 (Fin n) = nat (n mod 65536)"

definition fromCharCode :: "number \<Rightarrow> jsstring" where
  "fromCharCode x = [ToUint16 x]"

text \<open>Number to string, for \<^verbatim>\<open>NaN\<close> and integers: decimal digits, a minus sign first.\<close>

fun show_nat :: "nat \<Rightarrow> jsstring" where
  "show_nat n = (if n < 10 then [48 + n] else show_nat (n div 10) @ [48 + n mod 10])"

declare show_nat.simps [simp del]

definition show_int :: "int \<Rightarrow> jsstring" where
  "show_int i = (if i < 0 then 45 # show_nat (nat (- i)) else show_nat (nat i))"

fun NumberToString :: "number \<Rightarrow> jsstring" where
  "NumberToString NaN = ascii ''NaN''"
| "NumberToString (Fin i) = show_int i"

section \<open>Coordinate translation\<close>

text \<open>
  \<^verbatim>\<open>function coordsToAlgebraic(row, col) {
    const file = String.fromCharCode('a'.charCodeAt(0) + col);
    const rank = 8 - row;
    return file + rank; }\<close>
  \<^verbatim>\<open>'a'.charCodeAt(0)\<close> is 97. The function has no check of its arguments and no
  \<^verbatim>\<open>throw\<close>: it returns a string for every argument.
\<close>

text \<open>
  \<^verbatim>\<open>String.fromCharCode('a'.charCodeAt(0) + col)\<close>. With \<^verbatim>\<open>undefined\<close> the sum is
  \<^verbatim>\<open>NaN\<close>; \<^verbatim>\<open>null\<close> counts as 0, \<^verbatim>\<open>false\<close> as 0 and \<^verbatim>\<open>true\<close> as 1.
\<close>

fun file_letter :: "jsval \<Rightarrow> jsstring" where
  "file_letter JUndefined = fromCharCode NaN"
| "file_letter JNull = fromCharCode (Fin 97)"
| "file_letter (JBool b) = fromCharCode (Fin (97 + (if b then 1 else 0)))"
| "file_letter (JNum col) = fromCharCode (Fin (97 + sint col))"
| "file_letter (JOther u t) = [u]"

text \<open>\<^verbatim>\<open>8 - row\<close>, printed as \<^verbatim>\<open>file + rank\<close> prints it.\<close>

fun rank_text :: "jsval \<Rightarrow> jsstring" where
  "rank_text JUndefined = NumberToString NaN"
| "rank_text JNull = NumberToString (Fin 8)"
| "rank_text (JBool b) = NumberToString (Fin (8 - (if b then 1 else 0)))"
| "rank_text (JNum row) = NumberToString (Fin (8 - sint row))"
| "rank_text (JOther u t) = t"

definition coordsToAlgebraic :: "jsval \<Rightarrow> jsval \<Rightarrow> jsstring" where
  "coordsToAlgebraic row col =
     (let file = file_letter col;
          rank = rank_text row
      in file @ rank)"

text \<open>
  A square name, as the data model of the specification has it: a file letter
  \<open>a\<close> to \<open>h\<close> followed by a rank digit \<open>1\<close> to \<open>8\<close>.
\<close>

definition valid_square :: "jsstring \<Rightarrow> bool" where
  "valid_square s =
     (case s of
        [f, r] \<Rightarrow> 97 \<le> f \<and> f \<le> 104 \<and> 49 \<le> r \<and> r \<le> 56
      | _ \<Rightarrow> False)"

section \<open>The rules engine (chess.js), as the server uses it\<close>

text \<open>
  The server holds one engine object, \<^verbatim>\<open>chess\<close>, and calls six of its methods. The
  engine is a library outside the repository, so it is a parameter of the model: a state
  type \<open>'g\<close> and the six methods as functions of the state.
  \<^item> \<open>chess_turn\<close>: \<^verbatim>\<open>chess.turn()\<close>, the side to move;
  \<^item> \<open>chess_moves\<close>: \<^verbatim>\<open>chess.moves({ verbose: true })\<close>, the legal moves;
  \<^item> \<open>chess_move\<close>: \<^verbatim>\<open>chess.move({ from, to, promotion })\<close>. chess.js makes the move and
    returns it, or refuses. How it refuses depends on the release: before 1.0 the call
    returns \<^verbatim>\<open>null\<close>, from 1.0.0-beta.1 on it throws an \<^verbatim>\<open>Error\<close>. The repository
    does not say which release it runs on, so the result of the call is one of the
    three, together with the state the call leaves behind;
  \<^item> \<open>chess_history\<close>: \<^verbatim>\<open>chess.history({ verbose: true })\<close>;
  \<^item> \<open>chess_fen\<close>: \<^verbatim>\<open>chess.fen()\<close>;
  \<^item> \<open>chess_board\<close>: \<^verbatim>\<open>chess.board()\<close>, read at row and column \<open>0\<close> to \<open>7\<close>.
  The five reading methods return a value and leave the state as it is.
\<close>

datatype color = White | Black

datatype piece_type = Pawn | Rook | Knight | Bishop | Queen | King

record piece =
  p_type :: piece_type
  p_color :: color

record vmove =
  m_color :: color
  m_from :: jsstring
  m_to :: jsstring

datatype move_result = Moved vmove | Refused | Threw

record 'g engine =
  chess_turn :: "'g \<Rightarrow> color"
  chess_moves :: "'g \<Rightarrow> vmove list"
  chess_move :: "'g \<Rightarrow> jsstring \<Rightarrow> jsstring \<Rightarrow> jsstring \<Rightarrow> 'g \<times> move_result"
  chess_history :: "'g \<Rightarrow> vmove list"
  chess_fen :: "'g \<Rightarrow> jsstring"
  chess_board :: "'g \<Rightarrow> nat \<Rightarrow> nat \<Rightarrow> piece option"

section \<open>Board presenter\<close>

text \<open>\<^verbatim>\<open>unicodeMap\<close> of \<^verbatim>\<open>getUnicodeBoard\<close>: the glyph of a piece, a single code unit.\<close>

fun unicodeMap :: "piece_type \<Rightarrow> color \<Rightarrow> jsstring" where
  "unicodeMap Pawn Black = [9823]"
| "unicodeMap Rook Black = [9820]"
| "unicodeMap Knight Black = [9822]"
| "unicodeMap Bishop Black = [9821]"
| "unicodeMap Queen Black = [9819]"
| "unicodeMap King Black = [9818]"
| "unicodeMap Pawn White = [9817]"
| "unicodeMap Rook White = [9814]"
| "unicodeMap Knight White = [9816]"
| "unicodeMap Bishop White = [9815]"
| "unicodeMap Queen White = [9813]"
| "unicodeMap King White = [9812]"

definition getUnicodeBoard :: "'g engine \<Rightarrow> 'g \<Rightarrow> jsstring list list" where
  "getUnicodeBoard E g =
     map (\<lambda>r. map (\<lambda>c. case chess_board E g r c of
                         None \<Rightarrow> ascii ''.''
                       | Some cell \<Rightarrow> unicodeMap (p_type cell) (p_color cell))
                [0..<8])
         [0..<8]"

text \<open>The body of every successful response: board, player to move, history.\<close>

record view =
  v_board :: "jsstring list list"
  v_currentPlayer :: jsstring
  v_history :: "vmove list"

definition board_view :: "'g engine \<Rightarrow> 'g \<Rightarrow> view" where
  "board_view E g =
     \<lparr> v_board = getUnicodeBoard E g,
       v_currentPlayer = (if chess_turn E g = White then ascii ''white'' else ascii ''black''),
       v_history = chess_history E g \<rparr>"

text \<open>
  A handler answers with \<^verbatim>\<open>res.json\<close> (status 200), with
  \<^verbatim>\<open>res.status(400).json({ error })\<close>, or not at all: when the handler of
  \<^verbatim>\<open>POST /api/move\<close> throws, Express answers in its place with status 500.
\<close>

datatype response = Ok200 view | Err400 jsstring | Err500

section \<open>Prompt builder\<close>

text \<open>\<^verbatim>\<open>xs.join(sep)\<close> on an array of strings.\<close>

fun join :: "jsstring \<Rightarrow> jsstring list \<Rightarrow> jsstring" where
  "join sep [] = []"
| "join sep [x] = x"
| "join sep (x # y # ys) = x @ sep @ join sep (y # ys)"

definition nl :: jsstring where
  "nl = [10]"

definition recentMovesCount :: int where
  "recentMovesCount = 8"

text \<open>
  \<^verbatim>\<open>const sliceStart = Math.max(0, allMoves.length - recentMovesCount);
  const recentMoves = allMoves.slice(sliceStart).map((m, index) => {
      const moveNum = allMoves.length - recentMovesCount + index + 1;
      const color = (m.color === 'w' ? 'White' : 'Black');
      return `${moveNum}. ${color} moved ${m.from} -> ${m.to}`; });\<close>
\<close>

definition move_line :: "int \<Rightarrow> vmove \<Rightarrow> jsstring" where
  "move_line moveNum m =
     (let color = (if m_color m = White then ascii ''White'' else ascii ''Black'')
      in NumberToString (Fin moveNum) @ ascii ''. '' @ color @ ascii '' moved ''
           @ m_from m @ ascii '' -> '' @ m_to m)"

definition recentMoves :: "vmove list \<Rightarrow> jsstring list" where
  "recentMoves allMoves =
     (let sliceStart = max 0 (int (length allMoves) - recentMovesCount)
      in map (\<lambda>(index, m).
                let moveNum = int (length allMoves) - recentMovesCount + int index + 1
                in move_line moveNum m)
             (enumerate 0 (drop (nat sliceStart) allMoves)))"

definition ranks :: "jsstring list" where
  "ranks = map ascii [''8'', ''7'', ''6'', ''5'', ''4'', ''3'', ''2'', ''1'']"

definition visualBoard :: "jsstring list list \<Rightarrow> jsstring" where
  "visualBoard board =
     foldl (\<lambda>vb r. vb @ ranks ! r @ ascii '' | '' @ join (ascii ''  '') (board ! r) @ nl)
           (ascii ''Current Board (Top=Black, Bottom=White):'' @ nl)
           [0..<8]
     @ ascii ''    a  b  c  d  e  f  g  h'' @ nl"

definition instructions :: "jsstring list" where
  "instructions = map ascii
     [''It is currently Black's turn. '',
      ''You are an advanced chess AI that MUST provide a strictly legal move for Black in JSON only. '',
      ''Your JSON format must be EXACTLY:'',
      ''{'',
      ''  \"from\":\"<square>\",'',
      ''  \"to\":\"<square>\"'',
      ''}'',
      ''No extra fields, no extra text. If no legal moves exist, output:'',
      ''{'',
      ''  \"from\":\"none\",'',
      ''  \"to\":\"none\"'',
      ''}'',
      ''Always avoid illegal or repeated moves. Be as challenging as possible.'']"

definition buildOpenAIPrompt :: "'g engine \<Rightarrow> 'g \<Rightarrow> jsstring" where
  "buildOpenAIPrompt E g =
     (let fen = chess_fen E g;
          board = getUnicodeBoard E g;
          allMoves = chess_history E g;
          joined = join nl (recentMoves allMoves)
      in nl @ ascii ''FEN: '' @ fen @ nl @ nl
         @ ascii ''Moves so far (last '' @ NumberToString (Fin recentMovesCount) @ ascii '' moves):'' @ nl
         @ (if joined = [] then ascii ''No moves yet.'' else joined) @ nl @ nl
         @ visualBoard board @ nl @ nl
         @ join nl instructions @ nl)"

section \<open>Move oracle client\<close>

text \<open>
  One call of \<^verbatim>\<open>openai.chat.completions.create\<close> ends in one of three ways: it throws
  (any transport or service failure), it returns a completion whose
  \<^verbatim>\<open>choices[0].message.content\<close> is not a string (reading or trimming it throws a
  \<^verbatim>\<open>TypeError\<close>), or it returns a completion with a text. What is thrown is an
  error object, as the client library's errors are, so that the \<^verbatim>\<open>catch\<close> block can
  read its \<^verbatim>\<open>message\<close>.
\<close>

datatype completion = ServiceError | NoContent | Content jsstring

text \<open>\<^verbatim>\<open>String.prototype.trim\<close>: white space and line terminators, at both ends.\<close>

definition is_space :: "nat \<Rightarrow> bool" where
  "is_space c =
     (c \<in> {9, 10, 11, 12, 13, 32, 160, 5760, 8232, 8233, 8239, 8287, 12288, 65279}
      \<or> (8192 \<le> c \<and> c \<le> 8202))"

definition trim :: "jsstring \<Rightarrow> jsstring" where
  "trim s = rev (dropWhile is_space (rev (dropWhile is_space s)))"

definition lbrace :: nat where
  "lbrace = 123"

definition rbrace :: nat where
  "rbrace = 125"

text \<open>
  \<^verbatim>\<open>aiResponse.match(/\{[\s\S]*?\}/)\<close>, as the regular expression engine runs it.
  \<open>lazy_rest\<close> matches \<^verbatim>\<open>[\s\S]*?\}\<close> at the start of its argument: it takes one more
  code unit at a time and stops at the first closing brace. \<open>json_match\<close> tries the
  start positions from the left; a position matches when it holds an opening brace and
  \<open>lazy_rest\<close> matches after it. The result is the matched text, \<^verbatim>\<open>jsonMatch[0]\<close>.
\<close>

fun lazy_rest :: "jsstring \<Rightarrow> jsstring option" where
  "lazy_rest [] = None"
| "lazy_rest (c # cs) =
     (if c = rbrace then Some [c]
      else case lazy_rest cs of None \<Rightarrow> None | Some m \<Rightarrow> Some (c # m))"

fun json_match :: "jsstring \<Rightarrow> jsstring option" where
  "json_match [] = None"
| "json_match (c # cs) =
     (if c = lbrace
      then (case lazy_rest cs of Some m \<Rightarrow> Some (c # m) | None \<Rightarrow> json_match cs)
      else json_match cs)"

text \<open>
  \<^verbatim>\<open>async function callOpenAiForMove(userPrompt)\<close>. The whole body after the first log
  line is inside \<^verbatim>\<open>try\<close>; the \<^verbatim>\<open>catch\<close> logs and falls through to
  \<^verbatim>\<open>return null\<close>. The service is the parameter \<open>openai\<close>.
\<close>

definition callOpenAiForMove :: "(jsstring \<Rightarrow> completion) \<Rightarrow> jsstring \<Rightarrow> jsstring option" where
  "callOpenAiForMove openai userPrompt =
     (case openai userPrompt of
        ServiceError \<Rightarrow> None
      | NoContent \<Rightarrow> None
      | Content raw \<Rightarrow>
          (let aiResponse = trim raw
           in case json_match aiResponse of
                Some jsonString \<Rightarrow> Some jsonString
              | None \<Rightarrow> None))"

section \<open>The elicitation loop of POST /api/ai-move\<close>

text \<open>
  \<^verbatim>\<open>JSON.parse\<close> belongs to the language, not to the repository: it is the parameter
  \<open>JSON_parse\<close>, \<open>None\<close> when it throws. The loop reads two properties of the parsed
  object, \<^verbatim>\<open>aiMove.from\<close> and \<^verbatim>\<open>aiMove.to\<close>, compares them with \<^verbatim>\<open>===\<close> to strings and
  prints them in a template literal. A property is therefore a string (\<open>StrVal\<close>) or some
  other value, \<^verbatim>\<open>undefined\<close> included, of which only its printed form matters
  (\<open>OtherVal\<close>).
\<close>

datatype jsfield = StrVal jsstring | OtherVal jsstring

fun render :: "jsfield \<Rightarrow> jsstring" where
  "render (StrVal s) = s"
| "render (OtherVal s) = s"

record aimove =
  ai_from :: jsfield
  ai_to :: jsfield

text \<open>
  How one pass through the loop body ends: at the first \<^verbatim>\<open>continue\<close> (no response),
  in the \<^verbatim>\<open>catch\<close> because \<^verbatim>\<open>JSON.parse\<close> threw (parse error), in the \<^verbatim>\<open>else\<close>
  branch (the move is not among the legal moves), after a \<^verbatim>\<open>chess.move\<close> that
  returned \<^verbatim>\<open>null\<close>, in the \<^verbatim>\<open>catch\<close> because \<^verbatim>\<open>chess.move\<close> threw, or at the
  \<^verbatim>\<open>break\<close>.
\<close>

datatype outcome =
  NoResponse | ParseError | NotFound jsfield jsfield | Rejected | MoveThrew | Applied

text \<open>
  \<^verbatim>\<open>possible.some(m => m.from === aiMove.from && m.to === aiMove.to)\<close>: strict equality
  with the string \<^verbatim>\<open>m.from\<close> holds only for an equal string.
\<close>

definition found_in :: "vmove list \<Rightarrow> aimove \<Rightarrow> bool" where
  "found_in possible aiMove =
     list_ex (\<lambda>m. StrVal (m_from m) = ai_from aiMove \<and> StrVal (m_to m) = ai_to aiMove) possible"

text \<open>
  The loop body, from the reply of \<^verbatim>\<open>callOpenAiForMove\<close> on: the engine state, the
  prompt (each failing branch but one does \<^verbatim>\<open>prompt += ...\<close>) and how the pass ended.
  \<^verbatim>\<open>JSON.parse\<close>, \<^verbatim>\<open>chess.moves\<close>, \<^verbatim>\<open>chess.move\<close> and the \<^verbatim>\<open>else\<close> branch are all
  inside the \<^verbatim>\<open>try\<close>, so a \<^verbatim>\<open>chess.move\<close> that throws ends in the same \<^verbatim>\<open>catch\<close>
  as a reply that does not parse.
\<close>

definition attempt ::
  "'g engine \<Rightarrow> (jsstring \<Rightarrow> aimove option) \<Rightarrow> 'g \<Rightarrow> jsstring \<Rightarrow> jsstring option
     \<Rightarrow> 'g \<times> jsstring \<times> outcome" where
  "attempt E JSON_parse g prompt openAiResponse =
     (case openAiResponse of
        None \<Rightarrow>
          (g, prompt @ nl @ ascii ''NOTE: Your previous response was invalid or empty. Please return valid JSON.'' @ nl,
           NoResponse)
      | Some s \<Rightarrow>
          if s = []
          then (g, prompt @ nl @ ascii ''NOTE: Your previous response was invalid or empty. Please return valid JSON.'' @ nl,
                NoResponse)
          else (case JSON_parse s of
                  None \<Rightarrow>
                    (g, prompt @ nl @ ascii ''NOTE: Could not parse your JSON. Please output strictly valid JSON.'' @ nl,
                     ParseError)
                | Some aiMove \<Rightarrow>
                    (let possible = chess_moves E g;
                         found = found_in possible aiMove
                     in if found
                        then (case chess_move E g (render (ai_from aiMove))
                                     (render (ai_to aiMove)) (ascii ''q'') of
                                (g', Moved validMove) \<Rightarrow> (g', prompt, Applied)
                              | (g', Refused) \<Rightarrow> (g', prompt, Rejected)
                              | (g', Threw) \<Rightarrow>
                                  (g', prompt @ nl @ ascii ''NOTE: Could not parse your JSON. Please output strictly valid JSON.'' @ nl,
                                   MoveThrew))
                        else (g,
                              prompt @ nl @ ascii ''NOTE: Move {from:\"'' @ render (ai_from aiMove)
                                @ ascii ''\",to:\"'' @ render (ai_to aiMove)
                                @ ascii ''\"} is illegal or invalid. Please try again.'' @ nl,
                              NotFound (ai_from aiMove) (ai_to aiMove)))))"

text \<open>
  \<^verbatim>\<open>while (retries > 0) { ... retries--; }\<close>. The oracle is \<open>openai k\<close> at the call
  number \<open>k\<close> of this request (counted from 0), so it may answer the same prompt
  differently each time. The trace lists, per attempt made, the prompt that was sent
  (what \<^verbatim>\<open>callOpenAiForMove\<close> logs) and how the attempt ended. The result is
  whether \<^verbatim>\<open>validMove\<close> is set, the engine state and the trace.
\<close>

type_synonym trace = "(jsstring \<times> outcome) list"

fun elicit ::
  "'g engine \<Rightarrow> (jsstring \<Rightarrow> aimove option) \<Rightarrow> (nat \<Rightarrow> jsstring \<Rightarrow> completion)
     \<Rightarrow> nat \<Rightarrow> jsstring \<Rightarrow> 'g \<Rightarrow> trace \<Rightarrow> bool \<times> 'g \<times> trace" where
  "elicit E JSON_parse openai 0 prompt g tr = (False, g, tr)"
| "elicit E JSON_parse openai (Suc retries) prompt g tr =
     (case attempt E JSON_parse g prompt (callOpenAiForMove (openai (length tr)) prompt) of
        (g', prompt', out) \<Rightarrow>
          if out = Applied then (True, g', tr @ [(prompt, out)])
          else elicit E JSON_parse openai retries prompt' g' (tr @ [(prompt, out)]))"

text \<open>\<^verbatim>\<open>app.post('/api/ai-move', ...)\<close>: the new engine state, the response, the trace.\<close>

definition ai_move ::
  "'g engine \<Rightarrow> (jsstring \<Rightarrow> aimove option) \<Rightarrow> (nat \<Rightarrow> jsstring \<Rightarrow> completion)
     \<Rightarrow> 'g \<Rightarrow> 'g \<times> response \<times> trace" where
  "ai_move E JSON_parse openai g =
     (if chess_turn E g = White
      then (g, Err400 (ascii ''It is White'' @ [8217] @ ascii ''s turn, not AI'' @ [8217]
                        @ ascii ''s turn.''), [])
      else (case elicit E JSON_parse openai 3 (buildOpenAIPrompt E g) g [] of
              (validMove, g', tr) \<Rightarrow>
                if \<not> validMove
                then (g', Err400 (ascii ''AI failed to provide a valid move after multiple attempts.''), tr)
                else (g', Ok200 (board_view E g'), tr)))"

section \<open>POST /api/move\<close>

text \<open>
  The request body gives \<^verbatim>\<open>from\<close> and \<^verbatim>\<open>to\<close>. Each is falsy (\<^verbatim>\<open>undefined\<close>,
  \<^verbatim>\<open>null\<close>, \<^verbatim>\<open>false\<close>, \<^verbatim>\<open>0\<close>, the empty string) or a truthy value, of which the
  handler reads the properties \<^verbatim>\<open>row\<close> and \<^verbatim>\<open>col\<close>; a property that is not there
  reads as \<^verbatim>\<open>undefined\<close>. The call of \<^verbatim>\<open>chess.move\<close> is not inside a \<^verbatim>\<open>try\<close>:
  when it throws, the handler ends there and the answer is the 500 of Express.
\<close>

datatype js_arg = Falsy | Truthy (arg_row: jsval) (arg_col: jsval)

record move_body =
  b_from :: js_arg
  b_to :: js_arg

definition post_move :: "'g engine \<Rightarrow> 'g \<Rightarrow> move_body \<Rightarrow> 'g \<times> response" where
  "post_move E g body =
     (let from = b_from body; to = b_to body
      in if from = Falsy \<or> to = Falsy
         then (g, Err400 (ascii ''Missing from/to in request body.''))
         else if chess_turn E g \<noteq> White
         then (g, Err400 (ascii ''It is not White'' @ [8217] @ ascii ''s turn.''))
         else (let fromSquare = coordsToAlgebraic (arg_row from) (arg_col from);
                   toSquare = coordsToAlgebraic (arg_row to) (arg_col to)
               in case chess_move E g fromSquare toSquare (ascii ''q'') of
                    (g', Threw) \<Rightarrow> (g', Err500)
                  | (g', Refused) \<Rightarrow> (g', Err400 (ascii ''Illegal move.''))
                  | (g', Moved moveResult) \<Rightarrow> (g', Ok200 (board_view E g'))))"

section \<open>What the claims say of the engine, the oracle and the notes\<close>

text \<open>
  An engine that makes every move it lists: when the pair \<^verbatim>\<open>aiMove.from\<close>,
  \<^verbatim>\<open>aiMove.to\<close> is among \<^verbatim>\<open>chess.moves()\<close>, \<^verbatim>\<open>chess.move\<close> with that pair and
  the promotion \<open>q\<close> returns a move. chess.js is such an engine, in every release: it
  answers both calls from the same list of generated moves.
\<close>

definition accepts_listed_moves :: "'g engine \<Rightarrow> bool" where
  "accepts_listed_moves E =
     (\<forall>g aiMove. found_in (chess_moves E g) aiMove \<longrightarrow>
        (\<exists>g' m. chess_move E g (render (ai_from aiMove)) (render (ai_to aiMove)) (ascii ''q'')
                   = (g', Moved m)))"



text \<open>
  A reply of the oracle client that cannot lead to a move in the state \<open>g\<close>: it is
  \<^verbatim>\<open>null\<close> (or empty), or it does not parse, or the pair it claims is not a legal move.
\<close>

definition no_legal_answer ::
  "'g engine \<Rightarrow> (jsstring \<Rightarrow> aimove option) \<Rightarrow> 'g \<Rightarrow> jsstring option \<Rightarrow> bool" where
  "no_legal_answer E JSON_parse g openAiResponse =
     (case openAiResponse of
        None \<Rightarrow> True
      | Some s \<Rightarrow>
          s = [] \<or> (case JSON_parse s of
                      None \<Rightarrow> True
                    | Some aiMove \<Rightarrow> \<not> found_in (chess_moves E g) aiMove))"

section \<open>A small engine and parser for the examples\<close>

text \<open>
  The examples need an engine to run on. \<open>demo_engine\<close> is a game in which White has
  the one legal move e2 to e4 and Black the one legal move e7 to e5; its state is the
  side to move and the moves made. It refuses every other move by returning
  \<^verbatim>\<open>null\<close>, as chess.js before 1.0 does; \<open>strict_engine\<close> is the same engine, but it
  refuses by throwing, as chess.js from 1.0.0-beta.1 does. Both leave the state alone
  when they refuse. \<open>faulty_engine\<close> lists the same moves and refuses every one of
  them. \<open>demo_parse\<close> agrees with \<^verbatim>\<open>JSON.parse\<close> on the three texts the examples send
  it: two objects and a text that is not JSON.
\<close>

definition e2e4 :: vmove where
  "e2e4 = \<lparr> m_color = White, m_from = ascii ''e2'', m_to = ascii ''e4'' \<rparr>"

definition e7e5 :: vmove where
  "e7e5 = \<lparr> m_color = Black, m_from = ascii ''e7'', m_to = ascii ''e5'' \<rparr>"

definition demo_legal :: "color \<Rightarrow> vmove list" where
  "demo_legal c = (if c = White then [e2e4] else [e7e5])"

definition other :: "color \<Rightarrow> color" where
  "other c = (if c = White then Black else White)"

definition demo_engine :: "(color \<times> vmove list) engine" where
  "demo_engine =
     \<lparr> chess_turn = fst,
       chess_moves = (\<lambda>g. demo_legal (fst g)),
       chess_move = (\<lambda>g f t p.
          case find (\<lambda>m. m_from m = f \<and> m_to m = t) (demo_legal (fst g)) of
            None \<Rightarrow> (g, Refused)
          | Some m \<Rightarrow> ((other (fst g), snd g @ [m]), Moved m)),
       chess_history = snd,
       chess_fen = (\<lambda>g. ascii ''-''),
       chess_board = (\<lambda>g r c. None) \<rparr>"

definition strict_engine :: "(color \<times> vmove list) engine" where
  "strict_engine =
     demo_engine \<lparr> chess_move := (\<lambda>g f t p.
        case find (\<lambda>m. m_from m = f \<and> m_to m = t) (demo_legal (fst g)) of
          None \<Rightarrow> (g, Threw)
        | Some m \<Rightarrow> ((other (fst g), snd g @ [m]), Moved m)) \<rparr>"

definition faulty_engine :: "(color \<times> vmove list) engine" where
  "faulty_engine = demo_engine \<lparr> chess_move := (\<lambda>g f t p. (g, Refused)) \<rparr>"

definition json_e7e5 :: jsstring where
  "json_e7e5 = ascii ''{\"from\":\"e7\",\"to\":\"e5\"}''"

definition json_e7e4 :: jsstring where
  "json_e7e4 = ascii ''{\"from\":\"e7\",\"to\":\"e4\"}''"

definition demo_parse :: "jsstring \<Rightarrow> aimove option" where
  "demo_parse s =
     (if s = json_e7e5
      then Some \<lparr> ai_from = StrVal (ascii ''e7''), ai_to = StrVal (ascii ''e5'') \<rparr>
      else if s = json_e7e4
      then Some \<lparr> ai_from = StrVal (ascii ''e7''), ai_to = StrVal (ascii ''e4'') \<rparr>
      else None)"

text \<open>
  Two states of the game: \<open>start\<close>, with White to move, and \<open>after_e2e4\<close>, with
  Black to move after White's first move. \<open>three_failures\<close> is an oracle whose first call
  fails, whose second reply holds braces but no JSON, and whose third reply claims the
  move e7 to e4, which is not legal.
\<close>

definition start :: "color \<times> vmove list" where
  "start = (White, [])"

definition after_e2e4 :: "color \<times> vmove list" where
  "after_e2e4 = (Black, [e2e4])"

definition three_failures :: "nat \<Rightarrow> jsstring \<Rightarrow> completion" where
  "three_failures k prompt =
     (if k = 0 then ServiceError
      else if k = 1 then Content (ascii ''I play {e5}'')
      else Content (ascii ''My move: '' @ json_e7e4))"

section \<open>Coordinate translation: what it returns\<close>

lemma show_nat_digit: "n < 10 \<Longrightarrow> show_nat n = [48 + n]"
  by (simp add: show_nat.simps)

lemma show_nat_nonempty: "show_nat n \<noteq> []"
  by (subst show_nat.simps) simp

lemma show_nat_long: "10 \<le> n \<Longrightarrow> 2 \<le> length (show_nat n)"
proof -
  assume h: "10 \<le> n"
  obtain x xs where "show_nat (n div 10) = x # xs"
    using show_nat_nonempty by (cases "show_nat (n div 10)") auto
  then show ?thesis using h by (subst show_nat.simps) simp
qed

lemma show_nat_single: "(show_nat n = [d]) = (n < 10 \<and> d = 48 + n)"
proof (cases "n < 10")
  case True then show ?thesis by (auto simp: show_nat_digit)
next
  case False
  then have "2 \<le> length (show_nat n)" by (simp add: show_nat_long)
  then show ?thesis using False by auto
qed

lemma show_int_single: "(show_int i = [d]) = (0 \<le> i \<and> i < 10 \<and> d = 48 + nat i)"
  by (auto simp: show_int_def show_nat_single show_nat_nonempty)

lemma coords_num:
  "coordsToAlgebraic (JNum row) (JNum col)
     = nat ((97 + sint col) mod 65536) # show_int (8 - sint row)"
  by (simp add: coordsToAlgebraic_def fromCharCode_def)

lemma valid_square_Cons:
  "valid_square (c # s) = (\<exists>r. s = [r] \<and> 97 \<le> c \<and> c \<le> 104 \<and> 49 \<le> r \<and> r \<le> 56)"
  by (auto simp: valid_square_def split: list.splits)

lemma file_in_range:
  "(97 \<le> (97 + col) mod 65536 \<and> (97 + col) mod 65536 \<le> 104) = (col mod 65536 \<le> (7::int))"
proof -
  define c where "c = col mod 65536"
  have cb: "0 \<le> c" "c < 65536" by (simp_all add: c_def)
  have e: "(97 + col) mod 65536 = (97 + c) mod 65536"
    by (simp add: c_def mod_add_right_eq)
  show ?thesis
  proof (cases "c < 65439")
    case True
    then have "(97 + c) mod 65536 = 97 + c" using cb by simp
    then show ?thesis using e c_def by simp
  next
    case False
    have "(97 + c) mod 65536 = (97 + c - 65536) mod 65536"
      by (simp only: minus_mod_self2)
    also have "\<dots> = 97 + c - 65536" using False cb by simp
    finally have "(97 + c) mod 65536 < 97" using cb by simp
    then show ?thesis using e False c_def by simp
  qed
qed

text \<open>
  C7, as the code has it. The claim says that \<open>toAlgebraic\<close> fails with an
  \<open>OutOfRangeError\<close> outside \<open>[0,7] \<times> [0,7]\<close>. \<^verbatim>\<open>coordsToAlgebraic\<close> has no failure:
  for all 32-bit integers \<open>row\<close> and \<open>col\<close>, inside the grid or outside, it returns the
  code unit \<open>(97 + col) mod 65536\<close> followed by the decimal form of \<open>8 - row\<close>, and that
  string is a square name exactly when \<open>0 \<le> row \<le> 7\<close> and \<open>col mod 65536 \<le> 7\<close>, so
  for every pair inside the grid.
\<close>

theorem coordsToAlgebraic_never_fails:
  "coordsToAlgebraic (JNum row) (JNum col)
     = nat ((97 + sint col) mod 65536) # show_int (8 - sint row)
   \<and> valid_square (coordsToAlgebraic (JNum row) (JNum col))
       = (0 \<le> sint row \<and> sint row \<le> 7 \<and> sint col mod 65536 \<le> 7)"
proof -
  have "0 \<le> (97 + sint col) mod 65536" by simp
  then have m: "(97 \<le> nat ((97 + sint col) mod 65536) \<and> nat ((97 + sint col) mod 65536) \<le> 104)
             = (sint col mod 65536 \<le> 7)"
    using file_in_range [of "sint col"] by (simp only: nat_le_iff le_nat_iff) simp
  have r: "(\<exists>r. show_int (8 - sint row) = [r] \<and> 49 \<le> r \<and> r \<le> 56)
             = (0 \<le> sint row \<and> sint row \<le> 7)"
    by (auto simp: show_int_single)
  have "valid_square (nat ((97 + sint col) mod 65536) # show_int (8 - sint row))
       = (0 \<le> sint row \<and> sint row \<le> 7 \<and> sint col mod 65536 \<le> 7)"
    unfolding valid_square_Cons using m r by blast
  then show ?thesis by (simp add: coords_num)
qed

text \<open>
  C7, the claim refuted: row 8 is outside the grid, and the call returns the string
  \<open>a0\<close>, which is no square name; no error is raised.
\<close>

theorem coordsToAlgebraic_row_8_returns:
  "coordsToAlgebraic (JNum 8) (JNum 0) = ascii ''a0'' \<and> \<not> valid_square (ascii ''a0'')"
  by (simp add: coordsToAlgebraic_def fromCharCode_def show_int_def show_nat.simps ascii_def
      valid_square_def)

text \<open>
  C8: for every row and column from 0 to 7, \<^verbatim>\<open>coordsToAlgebraic\<close> returns two code
  units, the letter \<open>a\<close> plus the column and the digit of 8 minus the row, and this is a
  square name; the four corners of the grid are \<open>a8\<close>, \<open>h1\<close>, \<open>h8\<close> and \<open>a1\<close>.
\<close>

theorem coordsToAlgebraic_in_grid:
  "(0 \<le> sint row \<and> sint row \<le> 7 \<and> 0 \<le> sint col \<and> sint col \<le> 7 \<longrightarrow>
     coordsToAlgebraic (JNum row) (JNum col) = [nat (97 + sint col), nat (48 + (8 - sint row))]
     \<and> valid_square (coordsToAlgebraic (JNum row) (JNum col)))
   \<and> coordsToAlgebraic (JNum 0) (JNum 0) = ascii ''a8''
   \<and> coordsToAlgebraic (JNum 7) (JNum 7) = ascii ''h1''
   \<and> coordsToAlgebraic (JNum 0) (JNum 7) = ascii ''h8''
   \<and> coordsToAlgebraic (JNum 7) (JNum 0) = ascii ''a1''"
  by (auto simp: coords_num show_int_def show_nat_digit ascii_def valid_square_def
      nat_add_distrib)

theorem coordsToAlgebraic_in_grid_witness:
  "coordsToAlgebraic (JNum 6) (JNum 4) = ascii ''e2''
   \<and> valid_square (coordsToAlgebraic (JNum 6) (JNum 4))"
  using coordsToAlgebraic_in_grid [of 6 4] by (simp add: ascii_def valid_square_def)

section \<open>Move oracle client: what it returns\<close>

lemma lazy_rest_None: "(lazy_rest s = None) = (rbrace \<notin> set s)"
  by (induction s) (auto split: option.splits)

lemma lazy_rest_first_close:
  "rbrace \<notin> set mid \<Longrightarrow> lazy_rest (mid @ rbrace # post) = Some (mid @ [rbrace])"
  by (induction mid) auto

lemma lazy_rest_SomeD:
  "lazy_rest s = Some m \<Longrightarrow>
     \<exists>mid post. s = mid @ rbrace # post \<and> rbrace \<notin> set mid \<and> m = mid @ [rbrace]"
proof (induction s arbitrary: m)
  case Nil
  then show ?case by simp
next
  case (Cons c cs)
  show ?case
  proof (cases "c = rbrace")
    case True
    then have "c # cs = [] @ rbrace # cs \<and> rbrace \<notin> set [] \<and> m = [] @ [rbrace]"
      using Cons.prems by simp
    then show ?thesis by blast
  next
    case False
    then obtain m' where m': "lazy_rest cs = Some m'" "m = c # m'"
      using Cons.prems by (auto split: option.splits)
    from Cons.IH [OF m'(1)] obtain mid post where
      h: "cs = mid @ rbrace # post" "rbrace \<notin> set mid" "m' = mid @ [rbrace]" by blast
    then have "c # cs = (c # mid) @ rbrace # post \<and> rbrace \<notin> set (c # mid)
                 \<and> m = (c # mid) @ [rbrace]"
      using False m'(2) by simp
    then show ?thesis by blast
  qed
qed

lemma braces_differ: "lbrace \<noteq> rbrace"
  by (simp add: lbrace_def rbrace_def)

lemma json_match_first_open:
  "lbrace \<notin> set pre \<Longrightarrow> rbrace \<notin> set mid \<Longrightarrow>
     json_match (pre @ lbrace # mid @ rbrace # post) = Some (lbrace # mid @ [rbrace])"
  by (induction pre) (auto simp: lazy_rest_first_close)

lemma json_match_SomeD:
  "json_match s = Some m \<Longrightarrow>
     \<exists>pre mid post. s = pre @ lbrace # mid @ rbrace # post \<and> lbrace \<notin> set pre
        \<and> rbrace \<notin> set mid \<and> m = lbrace # mid @ [rbrace]"
proof (induction s)
  case Nil
  then show ?case by simp
next
  case (Cons c cs)
  show ?case
  proof (cases "c = lbrace \<and> lazy_rest cs \<noteq> None")
    case True
    then obtain m' where m': "lazy_rest cs = Some m'" by auto
    then have m: "m = lbrace # m'" using True Cons.prems by simp
    from lazy_rest_SomeD [OF m'] obtain mid post where
      h: "cs = mid @ rbrace # post" "rbrace \<notin> set mid" "m' = mid @ [rbrace]" by blast
    then have "c # cs = [] @ lbrace # mid @ rbrace # post \<and> lbrace \<notin> set []
                 \<and> rbrace \<notin> set mid \<and> m = lbrace # mid @ [rbrace]"
      using True m by simp
    then show ?thesis by blast
  next
    case False
    then have j: "json_match cs = Some m"
      using Cons.prems by (auto split: option.splits if_splits)
    from Cons.IH [OF j] obtain pre mid post where
      h: "cs = pre @ lbrace # mid @ rbrace # post" "lbrace \<notin> set pre"
         "rbrace \<notin> set mid" "m = lbrace # mid @ [rbrace]" by blast
    then have "rbrace \<in> set cs" by simp
    then have "lazy_rest cs \<noteq> None" by (simp add: lazy_rest_None)
    then have "c \<noteq> lbrace" using False by simp
    then have "c # cs = (c # pre) @ lbrace # mid @ rbrace # post \<and> lbrace \<notin> set (c # pre)"
      using h by simp
    with h(3,4) show ?thesis by blast
  qed
qed

lemma json_match_Some:
  "(json_match s = Some m) =
     (\<exists>pre mid post. s = pre @ lbrace # mid @ rbrace # post \<and> lbrace \<notin> set pre
        \<and> rbrace \<notin> set mid \<and> m = lbrace # mid @ [rbrace])"
  using json_match_SomeD json_match_first_open by blast

lemma json_match_any_pair:
  "json_match (pre @ lbrace # mid @ rbrace # post) \<noteq> None"
proof (induction pre)
  case Nil
  have "lazy_rest (mid @ rbrace # post) \<noteq> None" by (simp add: lazy_rest_None)
  then show ?case by auto
next
  case (Cons c pre)
  have "lazy_rest (pre @ lbrace # mid @ rbrace # post) \<noteq> None" by (simp add: lazy_rest_None)
  then show ?case using Cons by auto
qed

lemma json_match_None:
  "(json_match s = None) = (\<not> (\<exists>pre mid post. s = pre @ lbrace # mid @ rbrace # post))"
proof
  assume "json_match s = None"
  then show "\<not> (\<exists>pre mid post. s = pre @ lbrace # mid @ rbrace # post)"
    using json_match_any_pair by blast
next
  assume n: "\<not> (\<exists>pre mid post. s = pre @ lbrace # mid @ rbrace # post)"
  show "json_match s = None"
  proof (cases "json_match s")
    case None
    then show ?thesis .
  next
    case (Some m)
    from json_match_SomeD [OF Some] n show ?thesis by blast
  qed
qed

lemma not_space_braces: "\<not> is_space lbrace" "\<not> is_space rbrace"
  by (simp_all add: is_space_def lbrace_def rbrace_def)

lemma json_match_dropWhile: "json_match (dropWhile is_space s) = json_match s"
  using not_space_braces by (induction s) auto

lemma lazy_rest_append_spaces: "\<forall>c \<in> set w. is_space c \<Longrightarrow> lazy_rest (t @ w) = lazy_rest t"
proof (induction t)
  case Nil
  have "rbrace \<notin> set w" using Nil not_space_braces by auto
  then show ?case by (simp add: lazy_rest_None)
next
  case (Cons c cs)
  then show ?case by simp
qed

lemma json_match_append_spaces: "\<forall>c \<in> set w. is_space c \<Longrightarrow> json_match (t @ w) = json_match t"
proof (induction t)
  case Nil
  have "lbrace \<notin> set w" using Nil not_space_braces by auto
  then show ?case by (induction w) auto
next
  case (Cons c cs)
  then show ?case by (auto simp: lazy_rest_append_spaces split: option.splits)
qed

lemma trim_decomp: "\<exists>w. (\<forall>c \<in> set w. is_space c) \<and> s = rev (dropWhile is_space (rev s)) @ w"
proof -
  have "rev s = takeWhile is_space (rev s) @ dropWhile is_space (rev s)" by simp
  then have "s = rev (dropWhile is_space (rev s)) @ rev (takeWhile is_space (rev s))"
    by (metis rev_append rev_rev_ident)
  moreover have "\<forall>c \<in> set (rev (takeWhile is_space (rev s))). is_space c"
    by (auto dest: set_takeWhileD)
  ultimately show ?thesis by blast
qed

lemma json_match_trim: "json_match (trim s) = json_match s"
proof -
  obtain w where w: "\<forall>c \<in> set w. is_space c"
     "dropWhile is_space s = rev (dropWhile is_space (rev (dropWhile is_space s))) @ w"
    using trim_decomp [of "dropWhile is_space s"] by blast
  have "json_match (trim s) = json_match (trim s @ w)"
    using w(1) by (simp add: json_match_append_spaces)
  also have "\<dots> = json_match (dropWhile is_space s)" using w(2) by (simp add: trim_def)
  finally show ?thesis by (simp add: json_match_dropWhile)
qed

text \<open>
  C4: when the service call fails (it throws, or the completion holds no text)
  \<^verbatim>\<open>callOpenAiForMove\<close> returns \<^verbatim>\<open>null\<close>; its result type has no exception. When the
  call returns the text \<open>raw\<close>, the result is \<open>m\<close> exactly when \<open>raw\<close> splits into
  \<open>pre\<close>, an opening brace, \<open>mid\<close>, a closing brace and \<open>post\<close>, with no opening
  brace in \<open>pre\<close> and no closing brace in \<open>mid\<close>, and \<open>m\<close> is the part from that
  first opening brace to that closing brace, as it stands in \<open>raw\<close>; the result is
  \<^verbatim>\<open>null\<close> exactly when no opening brace of \<open>raw\<close> has a closing brace after it.
\<close>

theorem callOpenAiForMove_contract:
  "callOpenAiForMove (\<lambda>p. ServiceError) userPrompt = None
   \<and> callOpenAiForMove (\<lambda>p. NoContent) userPrompt = None
   \<and> (callOpenAiForMove (\<lambda>p. Content raw) userPrompt = Some m) =
       (\<exists>pre mid post. raw = pre @ lbrace # mid @ rbrace # post \<and> lbrace \<notin> set pre
          \<and> rbrace \<notin> set mid \<and> m = lbrace # mid @ [rbrace])
   \<and> (callOpenAiForMove (\<lambda>p. Content raw) userPrompt = None) =
       (\<not> (\<exists>pre mid post. raw = pre @ lbrace # mid @ rbrace # post))"
proof -
  have "callOpenAiForMove (\<lambda>p. Content raw) userPrompt = json_match raw"
    by (simp add: callOpenAiForMove_def json_match_trim split: option.splits)
  then show ?thesis
    using json_match_Some [of raw m] json_match_None [of raw]
    by (simp add: callOpenAiForMove_def)
qed

text \<open>An example: prose around the object, and a second pair of braces after it.\<close>

lemma callOpenAiForMove_example:
  "callOpenAiForMove (\<lambda>p. Content (ascii ''Sure! {\"from\":\"e7\",\"to\":\"e5\"} ok {x}'')) q
     = Some json_e7e5"
  by (simp add: callOpenAiForMove_def trim_def ascii_def is_space_def lbrace_def rbrace_def
      json_e7e5_def)

section \<open>POST /api/ai-move\<close>

text \<open>
  C3: when the engine says that White is to move, the handler answers 400 with the
  message that it is White's turn, the engine state is the one it was called in, and the
  trace is empty: no prompt was sent and no attempt was made, whatever the oracle is.
\<close>

theorem ai_move_white_turn:
  "chess_turn E g = White \<Longrightarrow>
     ai_move E JSON_parse openai g
       = (g, Err400 (ascii ''It is White'' @ [8217] @ ascii ''s turn, not AI'' @ [8217]
                      @ ascii ''s turn.''), [])
     \<and> ascii ''It is White'' @ [8217] @ ascii ''s turn, not AI'' @ [8217] @ ascii ''s turn.'' \<noteq> []"
  by (simp add: ai_move_def ascii_def)

theorem ai_move_white_turn_witness:
  "chess_turn demo_engine start = White
   \<and> ai_move demo_engine demo_parse three_failures start
       = (start, Err400 (ascii ''It is White'' @ [8217] @ ascii ''s turn, not AI'' @ [8217]
                          @ ascii ''s turn.''), [])"
proof -
  have t: "chess_turn demo_engine start = White"
    by (simp add: demo_engine_def start_def)
  show ?thesis
    using ai_move_white_turn [OF t, of demo_parse three_failures] t by simp
qed

lemma attempt_no_legal_answer:
  "no_legal_answer E J g r \<Longrightarrow>
     \<exists>prompt' out. attempt E J g prompt r = (g, prompt', out) \<and> out \<noteq> Applied"
  by (auto simp: no_legal_answer_def attempt_def split: option.splits)

lemma elicit_exhausts:
  "\<forall>k<length tr + n. \<forall>p. no_legal_answer E J g (callOpenAiForMove (openai k) p) \<Longrightarrow>
     \<exists>tr'. elicit E J openai n prompt g tr = (False, g, tr') \<and> length tr' = length tr + n"
proof (induction n arbitrary: prompt tr)
  case 0
  then show ?case by simp
next
  case (Suc n)
  have "no_legal_answer E J g (callOpenAiForMove (openai (length tr)) prompt)"
    using Suc.prems by simp
  from attempt_no_legal_answer [OF this] obtain prompt' out where
    o: "attempt E J g prompt (callOpenAiForMove (openai (length tr)) prompt) = (g, prompt', out)"
       "out \<noteq> Applied"
    by blast
  have "\<forall>k<length (tr @ [(prompt, out)]) + n. \<forall>p.
          no_legal_answer E J g (callOpenAiForMove (openai k) p)"
    using Suc.prems by simp
  then have "\<exists>tr'. elicit E J openai n prompt' g (tr @ [(prompt, out)]) = (False, g, tr')
                 \<and> length tr' = length (tr @ [(prompt, out)]) + n"
    by (rule Suc.IH)
  then show ?case using o by auto
qed

text \<open>
  C1: Black is to move, and each of the three replies the oracle client can give in this
  request is \<^verbatim>\<open>null\<close>, or does not parse, or claims a pair that is not a legal move.
  Then the loop makes exactly three attempts (the trace has three entries), the engine
  state is the one the request started in, and the answer is 400 with the (non-empty)
  message that the AI failed to provide a valid move.
\<close>

theorem ai_move_exhausted:
  "chess_turn E g = Black \<Longrightarrow>
   \<forall>k<3. \<forall>p. no_legal_answer E JSON_parse g (callOpenAiForMove (openai k) p) \<Longrightarrow>
     (\<exists>tr. ai_move E JSON_parse openai g
              = (g, Err400 (ascii ''AI failed to provide a valid move after multiple attempts.''), tr)
          \<and> length tr = 3)
     \<and> ascii ''AI failed to provide a valid move after multiple attempts.'' \<noteq> []"
proof -
  assume b: "chess_turn E g = Black"
    and n: "\<forall>k<3. \<forall>p. no_legal_answer E JSON_parse g (callOpenAiForMove (openai k) p)"
  have "\<forall>k<length ([] :: trace) + 3. \<forall>p.
          no_legal_answer E JSON_parse g (callOpenAiForMove (openai k) p)"
    using n by simp
  then have "\<exists>tr. elicit E JSON_parse openai 3 (buildOpenAIPrompt E g) g [] = (False, g, tr)
                 \<and> length tr = length ([] :: trace) + 3"
    by (rule elicit_exhausts)
  then obtain tr where "elicit E JSON_parse openai 3 (buildOpenAIPrompt E g) g [] = (False, g, tr)"
    "length tr = 3"
    by auto
  then show ?thesis using b by (simp add: ai_move_def ascii_def)
qed

lemma three_failures_no_legal:
  "no_legal_answer demo_engine demo_parse after_e2e4 (callOpenAiForMove (three_failures k) p)"
  by (simp add: no_legal_answer_def three_failures_def callOpenAiForMove_def trim_def ascii_def
      is_space_def lbrace_def rbrace_def json_e7e4_def json_e7e5_def demo_parse_def found_in_def
      demo_engine_def demo_legal_def after_e2e4_def e7e5_def)

theorem ai_move_exhausted_witness:
  "chess_turn demo_engine after_e2e4 = Black
   \<and> (\<exists>tr. ai_move demo_engine demo_parse three_failures after_e2e4
              = (after_e2e4,
                 Err400 (ascii ''AI failed to provide a valid move after multiple attempts.''), tr)
          \<and> length tr = 3)"
proof -
  have t: "chess_turn demo_engine after_e2e4 = Black"
    by (simp add: demo_engine_def after_e2e4_def)
  have n: "\<forall>k<3. \<forall>p. no_legal_answer demo_engine demo_parse after_e2e4
                   (callOpenAiForMove (three_failures k) p)"
    using three_failures_no_legal by blast
  show ?thesis using ai_move_exhausted [OF t n] t by simp
qed





lemma faulty_refuses_listed: "\<not> accepts_listed_moves faulty_engine"
proof
  assume "accepts_listed_moves faulty_engine"
  moreover have "found_in (chess_moves faulty_engine after_e2e4)
      \<lparr> ai_from = StrVal (ascii ''e7''), ai_to = StrVal (ascii ''e5'') \<rparr>"
    by (simp add: found_in_def faulty_engine_def demo_engine_def demo_legal_def after_e2e4_def
        e7e5_def)
  ultimately obtain g' m where
    "chess_move faulty_engine after_e2e4 (ascii ''e7'') (ascii ''e5'') (ascii ''q'') = (g', Moved m)"
    unfolding accepts_listed_moves_def by fastforce
  then show False by (simp add: faulty_engine_def)
qed





section \<open>Prompt builder: the numbers of the recent moves\<close>

lemma enumerate_shift:
  "map (\<lambda>(i, m). F (int i + k) m) (enumerate n xs)
     = map (\<lambda>(i, m). F (int i) m) (enumerate (n + nat k) xs)" if "0 \<le> k"
  using that by (induction xs arbitrary: n) (auto simp: nat_add_distrib)

text \<open>The list has one line for each of the last \<open>min 8 (length h)\<close> moves.\<close>

lemma recentMoves_length: "length (recentMoves h) = min 8 (length h)"
proof -
  have "length h - nat (max 0 (int (length h) - 8)) = min 8 (length h)"
    by (cases "8 \<le> length h") (simp_all add: max_def min_def nat_diff_distrib)
  then show ?thesis
    by (simp add: recentMoves_def recentMovesCount_def Let_def)
qed

text \<open>
  From eight moves on, the list holds the last eight moves, oldest first, each with its
  position in the whole game (counted from 1) as its number.
\<close>

lemma recentMoves_from_eight_on:
  "8 \<le> length h \<Longrightarrow>
     recentMoves h = map (\<lambda>(i, m). move_line (int i + 1) m)
                         (enumerate (length h - 8) (drop (length h - 8) h))"
proof -
  assume l: "8 \<le> length h"
  have "recentMoves h
      = map (\<lambda>(i, m). move_line (int i + (int (length h) - 8) + 1) m)
            (enumerate 0 (drop (length h - 8) h))"
    using l by (simp add: recentMoves_def recentMovesCount_def Let_def max_def nat_diff_distrib
        algebra_simps)
  also have "\<dots> = map (\<lambda>(i, m). move_line (int i + 1) m)
                      (enumerate (0 + nat (int (length h) - 8)) (drop (length h - 8) h))"
    using enumerate_shift [of "int (length h) - 8" "\<lambda>j m. move_line (j + 1) m" 0] l
    by (simp add: algebra_simps)
  finally show ?thesis using l by (simp add: nat_diff_distrib)
qed

text \<open>
  C6, where the code departs from it. After White's first move the history holds one
  move, the first of the game. \<^verbatim>\<open>moveNum\<close> is \<open>1 - 8 + 0 + 1\<close>, and the line of the
  prompt for that move carries the number \<open>-6\<close>, not \<open>1\<close>: \<^verbatim>\<open>sliceStart\<close> is held at 0
  by \<^verbatim>\<open>Math.max\<close>, and \<^verbatim>\<open>moveNum\<close> is computed from the difference that was not.
\<close>

theorem recentMoves_after_one_move:
  "chess_history demo_engine after_e2e4 = [e2e4]
   \<and> recentMoves (chess_history demo_engine after_e2e4) = [ascii ''-6. White moved e2 -> e4'']"
  by (simp add: demo_engine_def after_e2e4_def recentMoves_def recentMovesCount_def
      move_line_def e2e4_def show_int_def show_nat_digit ascii_def)

section \<open>POST /api/move: the failing requests\<close>

text \<open>
  What the handler answers, case by case: the two guards, and the three results of
  \<^verbatim>\<open>chess.move\<close>. In the guards the engine is not called and its state stays as it was.
\<close>

lemma post_move_guards:
  "(b_from body = Falsy \<or> b_to body = Falsy \<longrightarrow>
      post_move E g body = (g, Err400 (ascii ''Missing from/to in request body.'')))
   \<and> (b_from body \<noteq> Falsy \<and> b_to body \<noteq> Falsy \<and> chess_turn E g \<noteq> White \<longrightarrow>
      post_move E g body = (g, Err400 (ascii ''It is not White'' @ [8217] @ ascii ''s turn.'')))"
  by (simp add: post_move_def Let_def)

lemma post_move_engine:
  "b_from body \<noteq> Falsy \<Longrightarrow> b_to body \<noteq> Falsy \<Longrightarrow> chess_turn E g = White \<Longrightarrow>
   chess_move E g
     (coordsToAlgebraic (arg_row (b_from body)) (arg_col (b_from body)))
     (coordsToAlgebraic (arg_row (b_to body)) (arg_col (b_to body)))
     (ascii ''q'') = (g', r) \<Longrightarrow>
   post_move E g body =
     (g', case r of Threw \<Rightarrow> Err500
               | Refused \<Rightarrow> Err400 (ascii ''Illegal move.'')
               | Moved m \<Rightarrow> Ok200 (board_view E g'))"
  by (simp add: post_move_def Let_def split: move_result.splits)

text \<open>
  With an engine that refuses by returning \<^verbatim>\<open>null\<close>, the move e2 to e5 is answered
  400, as the handler means it to be.
\<close>

lemma post_move_illegal_move_null:
  "post_move demo_engine start
      \<lparr> b_from = Truthy (JNum 6) (JNum 4), b_to = Truthy (JNum 3) (JNum 4) \<rparr>
     = (start, Err400 (ascii ''Illegal move.''))"
  by (simp add: post_move_def Let_def demo_engine_def start_def demo_legal_def e2e4_def
      coords_num show_int_def show_nat_digit ascii_def)

text \<open>
  C9, where the code departs from it. White is to move and the request asks for e2 to
  e5, which the engine refuses. An engine that refuses by throwing, as chess.js from
  1.0.0-beta.1 does, ends the handler at the call of \<^verbatim>\<open>chess.move\<close>, which is in no
  \<^verbatim>\<open>try\<close>: the branch \<^verbatim>\<open>if (!moveResult)\<close> with its 400 and its message is never
  reached, and the answer is 500. The state is unchanged.
\<close>

theorem post_move_illegal_move_throws:
  "chess_turn strict_engine start = White
   \<and> coordsToAlgebraic (JNum 6) (JNum 4) = ascii ''e2''
   \<and> coordsToAlgebraic (JNum 3) (JNum 4) = ascii ''e5''
   \<and> chess_move strict_engine start (ascii ''e2'') (ascii ''e5'') (ascii ''q'') = (start, Threw)
   \<and> post_move strict_engine start
        \<lparr> b_from = Truthy (JNum 6) (JNum 4), b_to = Truthy (JNum 3) (JNum 4) \<rparr>
       = (start, Err500)"
  by (simp add: post_move_def Let_def strict_engine_def demo_engine_def start_def demo_legal_def
      e2e4_def coords_num show_int_def show_nat_digit ascii_def)

text \<open>
  A coordinate pair with a missing part is translated to a string that is no square
  name, whatever the other part is: without the row the string ends in \<open>NaN\<close>, without
  the column it starts with the code unit 0.
\<close>

lemma coords_missing:
  "row = JUndefined \<or> col = JUndefined \<Longrightarrow> \<not> valid_square (coordsToAlgebraic row col)"
proof -
  assume m: "row = JUndefined \<or> col = JUndefined"
  obtain u where u: "file_letter col = [u]"
    by (cases col) (simp_all add: fromCharCode_def)
  show ?thesis
  proof (cases "col = JUndefined")
    case True
    then show ?thesis
      by (simp add: coordsToAlgebraic_def fromCharCode_def valid_square_Cons)
  next
    case False
    then have "row = JUndefined" using m by simp
    then show ?thesis
      using u by (simp add: coordsToAlgebraic_def valid_square_Cons ascii_def)
  qed
qed

text \<open>
  C10, where the code departs from it. White is to move; \<^verbatim>\<open>from\<close> is an object with a
  row and no column, \<^verbatim>\<open>to\<close> is complete. The guard \<^verbatim>\<open>!from || !to\<close> lets the request
  through and \<^verbatim>\<open>from\<close> is translated to the code unit 0 followed by \<open>2\<close>, which is no
  square name, as the claim says. The engine refuses the move; an engine that refuses by
  throwing, as chess.js from 1.0.0-beta.1 does, ends the handler there, and the answer
  is 500, neither the 400 with \<open>Illegal move.\<close> nor the message about missing fields.
\<close>

theorem post_move_missing_col_throws:
  "chess_turn strict_engine start = White
   \<and> coordsToAlgebraic (JNum 6) JUndefined = [0, 50]
   \<and> \<not> valid_square (coordsToAlgebraic (JNum 6) JUndefined)
   \<and> chess_move strict_engine start [0, 50] (ascii ''e4'') (ascii ''q'') = (start, Threw)
   \<and> post_move strict_engine start
        \<lparr> b_from = Truthy (JNum 6) JUndefined, b_to = Truthy (JNum 4) (JNum 4) \<rparr>
       = (start, Err500)"
  by (simp add: post_move_def Let_def strict_engine_def demo_engine_def start_def demo_legal_def
      e2e4_def coordsToAlgebraic_def fromCharCode_def show_int_def show_nat_digit ascii_def
      valid_square_def)

text \<open>
  With an engine that refuses by returning \<^verbatim>\<open>null\<close>, the same request is answered 400
  with \<open>Illegal move.\<close>.
\<close>

lemma post_move_missing_col_null:
  "post_move demo_engine start
      \<lparr> b_from = Truthy (JNum 6) JUndefined, b_to = Truthy (JNum 4) (JNum 4) \<rparr>
     = (start, Err400 (ascii ''Illegal move.''))"
  by (simp add: post_move_def Let_def demo_engine_def start_def demo_legal_def e2e4_def
      coordsToAlgebraic_def fromCharCode_def show_int_def show_nat_digit ascii_def)

end
